theory Spec2Isabelle
  imports Main
begin

section \<open>EchoVerse (app.py): data model\<close>

text \<open>
  A Python \<^verbatim>\<open>str\<close> is a sequence of Unicode code points, a \<^verbatim>\<open>bytes\<close> object a
  sequence of numbers below 256. String literals of the source are written with \<open>lit\<close>;
  the few non-ASCII characters of the source are given by their code point.
\<close>

type_synonym pystr = "nat list"
type_synonym bytes = "nat list"

definition lit :: "string \<Rightarrow> pystr" where
  "lit s = map of_char s"

text \<open>
  A raised instance of a subclass of \<^verbatim>\<open>Exception\<close>: its class name and what
  \<^verbatim>\<open>str(e)\<close> gives. \<^verbatim>\<open>st.stop()\<close> ends the script run and is not an
  \<^verbatim>\<open>Exception\<close>; it is the outcome \<open>Stop\<close>.
\<close>

datatype exn = Exn string pystr

fun str_exn :: "exn \<Rightarrow> pystr" where
  "str_exn (Exn cls msg) = msg"

datatype 'a outcome = Return 'a | Raise exn | Stop

subsection \<open>What a script run does that can be observed\<close>

datatype event =
    PageConfig pystr pystr pystr
  | StyleSheet bytes
  | Columns "nat list"
  | Title pystr
  | Markdown pystr
  | Subheader pystr
  | Header pystr
  | Tabs "pystr list"
  | TextArea pystr
  | FileUploader pystr "pystr list"
  | Selectbox pystr "pystr list"
  | Radio pystr "pystr list"
  | TextInput pystr
  | Button pystr
  | Spinner pystr
  | Error pystr
  | Warning pystr
  | Success pystr
  | Info pystr
  | Audio bytes pystr
  | DownloadButton pystr bytes pystr pystr
  | Configure pystr
  | GenerateContent pystr pystr
  | Speech pystr pystr pystr

text \<open>The two remote calls: the rewrite call and the speech call.\<close>

fun is_rewrite_call :: "event \<Rightarrow> bool" where
  "is_rewrite_call (GenerateContent m p) = True"
| "is_rewrite_call _ = False"

fun is_speech_call :: "event \<Rightarrow> bool" where
  "is_speech_call (Speech t v f) = True"
| "is_speech_call _ = False"

definition is_remote_call :: "event \<Rightarrow> bool" where
  "is_remote_call ev = (is_rewrite_call ev \<or> is_speech_call ev)"

fun is_download :: "event \<Rightarrow> bool" where
  "is_download (DownloadButton l d f m) = True"
| "is_download _ = False"

subsection \<open>Session, files and page\<close>

text \<open>
  \<open>original_text\<close>, \<open>rewritten_text\<close> and \<open>audio_file\<close> are the three keys of
  \<^verbatim>\<open>st.session_state\<close>; \<open>files\<close> is the working directory; \<open>page\<close> is what the
  run has rendered and called so far, oldest first.
\<close>

record state =
  original_text :: pystr
  rewritten_text :: pystr
  audio_file :: "bytes option"
  files :: "pystr \<rightharpoonup> bytes"
  page :: "event list"

text \<open>The session as the previous run left it: a key may be absent.\<close>

record stored_session =
  stored_original :: "pystr option"
  stored_rewritten :: "pystr option"
  stored_audio :: "bytes option option"

record uploaded =
  ftype :: pystr
  fdata :: bytes

text \<open>What the widgets return in this run.\<close>

record inputs =
  text_input :: pystr
  uploaded_file :: "uploaded option"
  tone :: pystr
  gender :: pystr
  prompt_addition :: pystr
  button :: bool

text \<open>
  What \<^verbatim>\<open>communicate.save(output_file)\<close> did: it wrote the audio, or it raised and left
  the output file as it was (\<open>None\<close>) or with what had been written (\<open>Some\<close>).
\<close>

datatype tts_result = Saved bytes | SaveFailed exn "bytes option"

text \<open>
  The libraries and services the script calls but does not implement: the process
  environment and the \<^verbatim>\<open>.env\<close> file, \<^verbatim>\<open>genai.configure\<close>, the generative model
  (model name and prompt to \<^verbatim>\<open>response.text\<close>), \<^verbatim>\<open>edge_tts\<close> (text and voice),
  and \<^verbatim>\<open>docx.Document\<close> (file content to the paragraphs' texts).
\<close>

record env =
  environ :: "pystr \<rightharpoonup> pystr"
  dotenv :: "pystr \<rightharpoonup> pystr"
  genai_configure :: "pystr \<Rightarrow> exn option"
  generate_content :: "pystr \<Rightarrow> pystr \<Rightarrow> exn + pystr"
  edge_tts_save :: "pystr \<Rightarrow> pystr \<Rightarrow> tts_result"
  docx_document :: "bytes \<Rightarrow> exn + pystr list"

subsection \<open>Statements, exceptions and try/except\<close>

type_synonym 'a prog = "state \<Rightarrow> 'a outcome \<times> state"

definition ret :: "'a \<Rightarrow> 'a prog" where
  "ret x s = (Return x, s)"

definition raise_exn :: "exn \<Rightarrow> 'a prog" where
  "raise_exn e s = (Raise e, s)"

definition st_stop :: "'a prog" where
  "st_stop s = (Stop, s)"

definition emit :: "event \<Rightarrow> unit prog" where
  "emit ev s = (Return (), s\<lparr>page := page s @ [ev]\<rparr>)"

definition then_do :: "'a prog \<Rightarrow> ('a \<Rightarrow> 'b prog) \<Rightarrow> 'b prog" where
  "then_do m f s =
     (case m s of
        (Return x, s') \<Rightarrow> f x s'
      | (Raise e, s') \<Rightarrow> (Raise e, s')
      | (Stop, s') \<Rightarrow> (Stop, s'))"

text \<open>\<^verbatim>\<open>try: body  except Exception as e: handler\<close>\<close>

definition try_except :: "'a prog \<Rightarrow> (exn \<Rightarrow> 'a prog) \<Rightarrow> 'a prog" where
  "try_except body handler s =
     (case body s of
        (Raise e, s') \<Rightarrow> handler e s'
      | (Return x, s') \<Rightarrow> (Return x, s')
      | (Stop, s') \<Rightarrow> (Stop, s'))"

subsection \<open>Built-ins of Python the script uses\<close>

text \<open>\<^verbatim>\<open>str.isspace\<close> for one character.\<close>

definition is_space :: "nat \<Rightarrow> bool" where
  "is_space c =
     ((9 \<le> c \<and> c \<le> 13) \<or> (28 \<le> c \<and> c \<le> 32) \<or> c = 133 \<or> c = 160 \<or> c = 5760
      \<or> (8192 \<le> c \<and> c \<le> 8202) \<or> c = 8232 \<or> c = 8233 \<or> c = 8239 \<or> c = 8287
      \<or> c = 12288)"

definition strip :: "pystr \<Rightarrow> pystr" where
  "strip s = rev (dropWhile is_space (rev (dropWhile is_space s)))"

text \<open>\<^verbatim>\<open>sep.join(xs)\<close>\<close>

fun join :: "pystr \<Rightarrow> pystr list \<Rightarrow> pystr" where
  "join sep [] = []"
| "join sep [x] = x"
| "join sep (x # y # ys) = x @ sep @ join sep (y # ys)"

text \<open>
  \<^verbatim>\<open>bytes.decode("utf-8")\<close>, strict: \<open>None\<close> is \<^verbatim>\<open>UnicodeDecodeError\<close>. Overlong
  forms, surrogates and code points above 0x10FFFF are refused, as CPython does.
\<close>

definition is_cont :: "nat \<Rightarrow> bool" where
  "is_cont b = (128 \<le> b \<and> b \<le> 191)"

fun utf8_decode :: "bytes \<Rightarrow> pystr option" where
  "utf8_decode [] = Some []"
| "utf8_decode (b # bs) =
     (if b < 128 then map_option ((#) b) (utf8_decode bs)
      else if 194 \<le> b \<and> b \<le> 223 then
        (case bs of
           c1 # r \<Rightarrow>
             if is_cont c1
             then map_option ((#) ((b - 192) * 64 + (c1 - 128))) (utf8_decode r)
             else None
         | _ \<Rightarrow> None)
      else if 224 \<le> b \<and> b \<le> 239 then
        (case bs of
           c1 # c2 # r \<Rightarrow>
             if (if b = 224 then 160 \<le> c1 \<and> c1 \<le> 191
                 else if b = 237 then 128 \<le> c1 \<and> c1 \<le> 159
                 else is_cont c1) \<and> is_cont c2
             then map_option ((#) ((b - 224) * 4096 + (c1 - 128) * 64 + (c2 - 128)))
                    (utf8_decode r)
             else None
         | _ \<Rightarrow> None)
      else if 240 \<le> b \<and> b \<le> 244 then
        (case bs of
           c1 # c2 # c3 # r \<Rightarrow>
             if (if b = 240 then 144 \<le> c1 \<and> c1 \<le> 191
                 else if b = 244 then 128 \<le> c1 \<and> c1 \<le> 143
                 else is_cont c1) \<and> is_cont c2 \<and> is_cont c3
             then map_option
                    ((#) ((b - 240) * 262144 + (c1 - 128) * 4096 + (c2 - 128) * 64 + (c3 - 128)))
                    (utf8_decode r)
             else None
         | _ \<Rightarrow> None)
      else None)"

text \<open>\<^verbatim>\<open>base64.b64encode(data).decode()\<close>\<close>

definition b64_char :: "nat \<Rightarrow> nat" where
  "b64_char i =
     (if i < 26 then 65 + i
      else if i < 52 then 97 + (i - 26)
      else if i < 62 then 48 + (i - 52)
      else if i = 62 then 43 else 47)"

fun b64encode :: "bytes \<Rightarrow> pystr" where
  "b64encode [] = []"
| "b64encode [a] = [b64_char (a div 4), b64_char ((a mod 4) * 16), 61, 61]"
| "b64encode [a, b] =
     [b64_char (a div 4), b64_char ((a mod 4) * 16 + b div 16), b64_char ((b mod 16) * 4), 61]"
| "b64encode (a # b # c # r) =
     [b64_char (a div 4), b64_char ((a mod 4) * 16 + b div 16),
      b64_char ((b mod 16) * 4 + c div 64), b64_char (c mod 64)] @ b64encode r"

text \<open>\<^verbatim>\<open>open(path, "rb").read()\<close>\<close>

definition read_file :: "pystr \<Rightarrow> bytes prog" where
  "read_file path s =
     (case files s path of
        None \<Rightarrow> (Raise (Exn ''FileNotFoundError'' path), s)
      | Some data \<Rightarrow> (Return data, s))"

text \<open>\<^verbatim>\<open>try: body  except FileNotFoundError: handler\<close>, for any one class.\<close>

definition try_except_only :: "string \<Rightarrow> 'a prog \<Rightarrow> (exn \<Rightarrow> 'a prog) \<Rightarrow> 'a prog" where
  "try_except_only cls body handler s =
     (case body s of
        (Raise (Exn c m), s') \<Rightarrow>
          if c = cls then handler (Exn c m) s' else (Raise (Exn c m), s')
      | (Return x, s') \<Rightarrow> (Return x, s')
      | (Stop, s') \<Rightarrow> (Stop, s'))"

fun emit_all :: "event list \<Rightarrow> unit prog" where
  "emit_all [] = ret ()"
| "emit_all (ev # evs) = then_do (emit ev) (\<lambda>_. emit_all evs)"

section \<open>The script\<close>

subsection \<open>Loading the API key (lines 18 to 23)\<close>

definition GOOGLE_API_KEY :: pystr where
  "GOOGLE_API_KEY = lit ''GOOGLE_API_KEY''"

text \<open>
  \<^verbatim>\<open>os.environ\<close> after \<^verbatim>\<open>load_dotenv()\<close>: a variable of the \<^verbatim>\<open>.env\<close> file is
  added unless the process environment has it already.
\<close>

definition load_dotenv :: "env \<Rightarrow> pystr \<rightharpoonup> pystr" where
  "load_dotenv en = dotenv en ++ environ en"

definition key_error_message :: pystr where
  "key_error_message =
     lit ''Your Google AI API key is not configured. Please create a .env file or set the environment variable.''"

definition load_api_key :: "env \<Rightarrow> unit prog" where
  "load_api_key en =
     try_except
       (case load_dotenv en GOOGLE_API_KEY of
          None \<Rightarrow> raise_exn (Exn ''KeyError'' ([39] @ GOOGLE_API_KEY @ [39]))
        | Some k \<Rightarrow>
            then_do (emit (Configure k))
              (\<lambda>_. case genai_configure en k of
                      None \<Rightarrow> ret ()
                    | Some e \<Rightarrow> raise_exn e))
       (\<lambda>e. then_do (emit (Error key_error_message)) (\<lambda>_. st_stop))"

subsection \<open>Styling (lines 27 to 102)\<close>

definition get_base64_of_bin_file :: "pystr \<Rightarrow> pystr prog" where
  "get_base64_of_bin_file bin_file =
     then_do (read_file bin_file) (\<lambda>data. ret (b64encode data))"

text \<open>
  \<open>StyleSheet bin_str\<close> stands for the \<^verbatim>\<open>st.markdown\<close> call with the CSS text in which
  \<open>bin_str\<close> is the background image.
\<close>

definition set_page_styling :: "pystr \<Rightarrow> unit prog" where
  "set_page_styling png_file =
     then_do (get_base64_of_bin_file png_file) (\<lambda>bin_str. emit (StyleSheet bin_str))"

subsection \<open>Core functions (lines 106 to 140)\<close>

definition read_docx :: "env \<Rightarrow> bytes \<Rightarrow> pystr prog" where
  "read_docx en file =
     try_except
       (case docx_document en file of
          Inl e \<Rightarrow> raise_exn e
        | Inr paras \<Rightarrow> ret (join [10] paras))
       (\<lambda>e. then_do (emit (Error (lit ''Error reading DOCX file: '' @ str_exn e)))
               (\<lambda>_. ret []))"

definition model_name :: pystr where
  "model_name = lit ''gemini-1.5-flash''"

definition rewrite_prompt :: "pystr \<Rightarrow> pystr \<Rightarrow> pystr \<Rightarrow> pystr \<Rightarrow> pystr" where
  "rewrite_prompt original tn gd addition =
     lit ''Rewrite the following text in a '' @ tn @ lit '' tone. ''
     @ lit ''The narration is intended for a '' @ gd @ lit '' voice. ''
     @ addition @ [10, 10]
     @ lit ''Original text:'' @ [10] @ lit ''---'' @ [10] @ original @ [10] @ lit ''---''
     @ [10] @ lit ''Rewritten text:''"

text \<open>
  The three steps inside the \<^verbatim>\<open>try\<close>: building the model, \<^verbatim>\<open>generate_content\<close> and
  reading \<^verbatim>\<open>response.text\<close>; any of them may raise.
\<close>

definition call_generate_content :: "env \<Rightarrow> pystr \<Rightarrow> pystr \<Rightarrow> pystr prog" where
  "call_generate_content en m prompt =
     then_do (emit (GenerateContent m prompt))
       (\<lambda>_. case generate_content en m prompt of
               Inl e \<Rightarrow> raise_exn e
             | Inr t \<Rightarrow> ret t)"

definition get_rewritten_text :: "env \<Rightarrow> pystr \<Rightarrow> pystr \<Rightarrow> pystr \<Rightarrow> pystr \<Rightarrow> pystr prog" where
  "get_rewritten_text en original tn gd addition =
     (if original = [] then ret []
      else
        try_except
          (call_generate_content en model_name (rewrite_prompt original tn gd addition))
          (\<lambda>e. then_do (emit (Error (lit ''An error occurred with the AI model: '' @ str_exn e)))
                  (\<lambda>_. ret [])))"

definition voice_map :: "pystr \<rightharpoonup> pystr" where
  "voice_map = [lit ''Male'' \<mapsto> lit ''en-US-GuyNeural'', lit ''Female'' \<mapsto> lit ''en-US-JennyNeural'']"

text \<open>\<^verbatim>\<open>voice_map.get(gender, "en-US-JennyNeural")\<close>\<close>

definition select_voice :: "pystr \<Rightarrow> pystr" where
  "select_voice gd =
     (case voice_map gd of
        Some v \<Rightarrow> v
      | None \<Rightarrow> lit ''en-US-JennyNeural'')"

text \<open>\<^verbatim>\<open>edge_tts.Communicate(text, voice)\<close> and \<^verbatim>\<open>await communicate.save(output_file)\<close>\<close>

definition communicate_save :: "env \<Rightarrow> pystr \<Rightarrow> pystr \<Rightarrow> pystr \<Rightarrow> unit prog" where
  "communicate_save en text voice output_file =
     then_do (emit (Speech text voice output_file))
       (\<lambda>_ s. case edge_tts_save en text voice of
                 Saved b \<Rightarrow> (Return (), s\<lparr>files := (files s)(output_file \<mapsto> b)\<rparr>)
               | SaveFailed e left \<Rightarrow>
                   (Raise e,
                    case left of
                      None \<Rightarrow> s
                    | Some b \<Rightarrow> s\<lparr>files := (files s)(output_file \<mapsto> b)\<rparr>))"

definition generate_audio :: "env \<Rightarrow> pystr \<Rightarrow> pystr \<Rightarrow> pystr \<Rightarrow> pystr option prog" where
  "generate_audio en text gd output_file =
     try_except
       (then_do (communicate_save en text (select_voice gd) output_file)
          (\<lambda>_. ret (Some output_file)))
       (\<lambda>e. then_do (emit (Error (lit ''Failed to generate audio: '' @ str_exn e)))
               (\<lambda>_. ret None))"

definition narration_mp3 :: pystr where
  "narration_mp3 = lit ''narration.mp3''"

subsection \<open>The generate button (lines 179 to 202)\<close>

definition set_original :: "pystr \<Rightarrow> unit prog" where
  "set_original t s = (Return (), s\<lparr>original_text := t\<rparr>)"

definition set_rewritten :: "pystr \<Rightarrow> unit prog" where
  "set_rewritten t s = (Return (), s\<lparr>rewritten_text := t\<rparr>)"

definition set_audio :: "bytes \<Rightarrow> unit prog" where
  "set_audio b s = (Return (), s\<lparr>audio_file := Some b\<rparr>)"

definition mime_txt :: pystr where
  "mime_txt = lit ''text/plain''"

definition mime_docx :: pystr where
  "mime_docx = lit ''application/vnd.openxmlformats-officedocument.wordprocessingml.document''"

text \<open>
  Lines 180 to 186. The \<^verbatim>\<open>decode\<close> of a plain-text file is in no \<^verbatim>\<open>try\<close>; a
  file of any other type than the two tested leaves \<open>original_text\<close> as it was.
\<close>

definition load_original :: "env \<Rightarrow> inputs \<Rightarrow> unit prog" where
  "load_original en inp =
     (case uploaded_file inp of
        Some f \<Rightarrow>
          if ftype f = mime_txt then
            (case utf8_decode (fdata f) of
               None \<Rightarrow> raise_exn (Exn ''UnicodeDecodeError'' (lit ''invalid utf-8''))
             | Some t \<Rightarrow> set_original t)
          else if ftype f = mime_docx then
            then_do (read_docx en (fdata f)) set_original
          else ret ()
      | None \<Rightarrow> set_original (text_input inp))"

definition spinner_text :: pystr where
  "spinner_text = lit ''EchoVerse AI is warming up... Rewriting text and tuning vocal cords...''"

definition blank_warning :: pystr where
  "blank_warning = lit ''Please enter some text or upload a file to generate an audiobook.''"

definition no_audio_error :: pystr where
  "no_audio_error = lit ''Could not generate audio. Please try again.''"

definition no_rewrite_error :: pystr where
  "no_rewrite_error =
     lit ''The AI could not rewrite the text. Please check your input or try again.''"

text \<open>Lines 191 to 200: \<^verbatim>\<open>asyncio.run\<close> runs the coroutine to its end.\<close>

definition narrate :: "env \<Rightarrow> inputs \<Rightarrow> unit prog" where
  "narrate en inp s =
     (if rewritten_text s \<noteq> [] then
        then_do (generate_audio en (rewritten_text s) (gender inp) narration_mp3)
          (\<lambda>audio_path.
             case audio_path of
               Some path \<Rightarrow>
                 if path \<noteq> [] then
                   then_do (read_file path)
                     (\<lambda>data. then_do (set_audio data)
                        (\<lambda>_. emit (Success (lit ''Audiobook generated successfully!''))))
                 else emit (Error no_audio_error)
             | None \<Rightarrow> emit (Error no_audio_error)) s
      else emit (Error no_rewrite_error) s)"

text \<open>Lines 188 to 202.\<close>

definition rewrite_and_narrate :: "env \<Rightarrow> inputs \<Rightarrow> unit prog" where
  "rewrite_and_narrate en inp s =
     (if strip (original_text s) \<noteq> [] then
        then_do (emit (Spinner spinner_text))
          (\<lambda>_. then_do
             (get_rewritten_text en (original_text s) (tone inp) (gender inp)
                (prompt_addition inp))
             (\<lambda>t. then_do (set_rewritten t) (\<lambda>_. narrate en inp))) s
      else emit (Warning blank_warning) s)"

definition on_generate :: "env \<Rightarrow> inputs \<Rightarrow> unit prog" where
  "on_generate en inp = then_do (load_original en inp) (\<lambda>_. rewrite_and_narrate en inp)"

subsection \<open>Showing the results (lines 204 to 219)\<close>

definition show_texts :: "unit prog" where
  "show_texts s =
     (if rewritten_text s \<noteq> [] then
        emit_all
          [Header ([128214] @ lit '' Original vs. Rewritten Text''), Columns [1, 1],
           Subheader (lit ''Original Text''), Info (original_text s),
           Subheader (lit ''Rewritten Text''), Success (rewritten_text s)] s
      else ret () s)"

definition download_filename :: pystr where
  "download_filename = lit ''echoverse_narration.mp3''"

definition show_audio :: "unit prog" where
  "show_audio s =
     (case audio_file s of
        Some data \<Rightarrow>
          if data \<noteq> [] then
            emit_all
              [Header ([128266] @ lit '' Listen to Your Audiobook''),
               Audio data (lit ''audio/mp3''),
               DownloadButton ([128229] @ lit '' Download MP3'') data download_filename
                 (lit ''audio/mp3'')] s
          else ret () s
      | None \<Rightarrow> ret () s)"

subsection \<open>The whole script\<close>

definition tones :: "pystr list" where
  "tones = map lit [''Neutral'', ''Suspenseful'', ''Inspiring'', ''Happy'', ''Sad'', ''Angry'',
     ''Formal'', ''Casual'', ''Humorous'', ''Mysterious'']"

text \<open>Lines 149 to 179, the widgets; what they return is \<open>inputs\<close>.\<close>

definition layout :: "unit prog" where
  "layout =
     emit_all
       [Columns [1, 2, 1],
        Title ([127911] @ lit '' EchoVerse''),
        Markdown (lit ''### Your AI-Powered Audiobook Creation Tool''),
        Subheader (lit ''Step 1: Provide Your Text''),
        Tabs [[9997, 65039] @ lit '' Paste Text'', [128194] @ lit '' Upload File''],
        TextArea (lit ''Paste your text here:''),
        FileUploader (lit ''Upload your file here:'') [lit ''txt'', lit ''docx''],
        Subheader (lit ''Step 2: Customize Your Audiobook''),
        Columns [1, 1],
        Selectbox (lit ''Choose a Tone'') tones,
        Radio (lit ''Choose a Voice Gender'') [lit ''Female'', lit ''Male''],
        TextInput (lit ''Optional: Add specific instructions for the AI''),
        Button ([128640] @ lit '' Generate Audiobook'')]"

definition background_warning :: pystr where
  "background_warning =
     lit ''Background image '' @ [39] @ lit ''background.jpg'' @ [39]
     @ lit '' not found. The app will use default styling.''"

definition app :: "env \<Rightarrow> inputs \<Rightarrow> unit prog" where
  "app en inp =
     then_do (emit (PageConfig (lit ''EchoVerse'') [127911] (lit ''wide'')))
       (\<lambda>_. then_do (load_api_key en)
          (\<lambda>_. then_do
             (try_except_only ''FileNotFoundError'' (set_page_styling (lit ''background.jpg''))
                (\<lambda>e. emit (Warning background_warning)))
             (\<lambda>_. then_do layout
                (\<lambda>_. then_do (if button inp then on_generate en inp else ret ())
                   (\<lambda>_. then_do show_texts (\<lambda>_. show_audio))))))"

text \<open>
  Lines 155 to 160 give an absent session key its default. Nothing before them reads or
  writes the session, so the run starts from the session with the defaults in.
\<close>

definition initial_state :: "stored_session \<Rightarrow> (pystr \<rightharpoonup> bytes) \<Rightarrow> state" where
  "initial_state ss fs =
     \<lparr>original_text = (case stored_original ss of None \<Rightarrow> [] | Some t \<Rightarrow> t),
      rewritten_text = (case stored_rewritten ss of None \<Rightarrow> [] | Some t \<Rightarrow> t),
      audio_file = (case stored_audio ss of None \<Rightarrow> None | Some a \<Rightarrow> a),
      files = fs,
      page = []\<rparr>"

definition run_script :: "env \<Rightarrow> inputs \<Rightarrow> stored_session \<Rightarrow> (pystr \<rightharpoonup> bytes) \<Rightarrow> unit outcome \<times> state" where
  "run_script en inp ss fs = app en inp (initial_state ss fs)"

section \<open>Properties\<close>

subsection \<open>What each function does, as one equation\<close>

lemmas prog_defs = then_do_def ret_def raise_exn_def emit_def try_except_def st_stop_def

lemma emit_all_eq: "emit_all evs s = (Return (), s\<lparr>page := page s @ evs\<rparr>)"
  by (induction evs arbitrary: s) (simp_all add: prog_defs)

lemma then_do_emit: "then_do (emit ev) f s = f () (s\<lparr>page := page s @ [ev]\<rparr>)"
  by (simp add: then_do_def emit_def)

lemma then_do_emit_all: "then_do (emit_all evs) f s = f () (s\<lparr>page := page s @ evs\<rparr>)"
  by (simp add: then_do_def emit_all_eq del: emit_all.simps)

lemma read_docx_eq:
  "read_docx en file s =
     (case docx_document en file of
        Inr paras \<Rightarrow> (Return (join [10] paras), s)
      | Inl e \<Rightarrow> (Return [], s\<lparr>page := page s @ [Error (lit ''Error reading DOCX file: '' @ str_exn e)]\<rparr>))"
  by (simp add: read_docx_def prog_defs split: sum.splits)

lemma get_rewritten_text_eq:
  "get_rewritten_text en original tn gd addition s =
     (if original = [] then (Return [], s)
      else
        (case generate_content en model_name (rewrite_prompt original tn gd addition) of
           Inr t \<Rightarrow>
             (Return t,
              s\<lparr>page := page s @ [GenerateContent model_name (rewrite_prompt original tn gd addition)]\<rparr>)
         | Inl e \<Rightarrow>
             (Return [],
              s\<lparr>page := page s @
                 [GenerateContent model_name (rewrite_prompt original tn gd addition),
                  Error (lit ''An error occurred with the AI model: '' @ str_exn e)]\<rparr>)))"
  by (simp add: get_rewritten_text_def call_generate_content_def prog_defs split: sum.splits)

lemma generate_audio_eq:
  "generate_audio en text gd out s =
     (case edge_tts_save en text (select_voice gd) of
        Saved b \<Rightarrow>
          (Return (Some out),
           s\<lparr>page := page s @ [Speech text (select_voice gd) out],
              files := (files s)(out \<mapsto> b)\<rparr>)
      | SaveFailed e left \<Rightarrow>
          (Return None,
           s\<lparr>page := page s @
                [Speech text (select_voice gd) out,
                 Error (lit ''Failed to generate audio: '' @ str_exn e)],
              files := (case left of None \<Rightarrow> files s | Some b \<Rightarrow> (files s)(out \<mapsto> b))\<rparr>))"
  by (simp add: generate_audio_def communicate_save_def prog_defs
      split: tts_result.splits option.splits)

lemma narration_mp3_nonempty: "narration_mp3 \<noteq> []"
  by (simp add: narration_mp3_def lit_def)

lemma narrate_eq:
  "narrate en inp s =
     (if rewritten_text s = [] then (Return (), s\<lparr>page := page s @ [Error no_rewrite_error]\<rparr>)
      else
        (case edge_tts_save en (rewritten_text s) (select_voice (gender inp)) of
           Saved b \<Rightarrow>
             (Return (),
              s\<lparr>page := page s @
                   [Speech (rewritten_text s) (select_voice (gender inp)) narration_mp3,
                    Success (lit ''Audiobook generated successfully!'')],
                 files := (files s)(narration_mp3 \<mapsto> b),
                 audio_file := Some b\<rparr>)
         | SaveFailed e left \<Rightarrow>
             (Return (),
              s\<lparr>page := page s @
                   [Speech (rewritten_text s) (select_voice (gender inp)) narration_mp3,
                    Error (lit ''Failed to generate audio: '' @ str_exn e),
                    Error no_audio_error],
                 files := (case left of None \<Rightarrow> files s
                           | Some b \<Rightarrow> (files s)(narration_mp3 \<mapsto> b))\<rparr>)))"
  by (simp add: narrate_def generate_audio_eq narration_mp3_nonempty read_file_def set_audio_def
      prog_defs split: tts_result.splits option.splits)

lemma strip_Nil: "strip [] = []"
  by (simp add: strip_def)

lemma rewrite_and_narrate_eq:
  "rewrite_and_narrate en inp s =
     (if strip (original_text s) = [] then
        (Return (), s\<lparr>page := page s @ [Warning blank_warning]\<rparr>)
      else
        (case generate_content en model_name
                (rewrite_prompt (original_text s) (tone inp) (gender inp) (prompt_addition inp)) of
           Inr t \<Rightarrow>
             narrate en inp
               (s\<lparr>page := page s @
                     [Spinner spinner_text,
                      GenerateContent model_name
                        (rewrite_prompt (original_text s) (tone inp) (gender inp)
                           (prompt_addition inp))],
                   rewritten_text := t\<rparr>)
         | Inl e \<Rightarrow>
             narrate en inp
               (s\<lparr>page := page s @
                     [Spinner spinner_text,
                      GenerateContent model_name
                        (rewrite_prompt (original_text s) (tone inp) (gender inp)
                           (prompt_addition inp)),
                      Error (lit ''An error occurred with the AI model: '' @ str_exn e)],
                   rewritten_text := []\<rparr>)))"
proof (cases "strip (original_text s) = []")
  case True
  then show ?thesis by (simp add: rewrite_and_narrate_def prog_defs)
next
  case False
  then have "original_text s \<noteq> []" using strip_Nil by auto
  with False show ?thesis
    by (simp add: rewrite_and_narrate_def get_rewritten_text_eq set_rewritten_def prog_defs
        split: sum.splits)
qed

lemma load_original_eq:
  "load_original en inp s =
     (case uploaded_file inp of
        None \<Rightarrow> (Return (), s\<lparr>original_text := text_input inp\<rparr>)
      | Some f \<Rightarrow>
          if ftype f = mime_txt then
            (case utf8_decode (fdata f) of
               None \<Rightarrow> (Raise (Exn ''UnicodeDecodeError'' (lit ''invalid utf-8'')), s)
             | Some t \<Rightarrow> (Return (), s\<lparr>original_text := t\<rparr>))
          else if ftype f = mime_docx then
            (case docx_document en (fdata f) of
               Inr paras \<Rightarrow> (Return (), s\<lparr>original_text := join [10] paras\<rparr>)
             | Inl e \<Rightarrow>
                 (Return (),
                  s\<lparr>page := page s @ [Error (lit ''Error reading DOCX file: '' @ str_exn e)],
                     original_text := []\<rparr>))
          else (Return (), s))"
  by (simp add: load_original_def read_docx_eq set_original_def prog_defs
      split: option.splits sum.splits)

lemma on_generate_eq:
  "on_generate en inp s =
     (case load_original en inp s of
        (Return u, s1) \<Rightarrow> rewrite_and_narrate en inp s1
      | (Raise e, s1) \<Rightarrow> (Raise e, s1)
      | (Stop, s1) \<Rightarrow> (Stop, s1))"
  by (simp add: on_generate_def then_do_def)

lemma load_api_key_eq:
  "load_api_key en s =
     (case load_dotenv en GOOGLE_API_KEY of
        None \<Rightarrow> (Stop, s\<lparr>page := page s @ [Error key_error_message]\<rparr>)
      | Some k \<Rightarrow>
          (case genai_configure en k of
             None \<Rightarrow> (Return (), s\<lparr>page := page s @ [Configure k]\<rparr>)
           | Some e \<Rightarrow> (Stop, s\<lparr>page := page s @ [Configure k, Error key_error_message]\<rparr>)))"
  by (simp add: load_api_key_def prog_defs split: option.splits)

lemma styling_eq:
  "try_except_only ''FileNotFoundError'' (set_page_styling p)
     (\<lambda>e. emit (Warning background_warning)) s =
   (Return (),
    s\<lparr>page := page s @
        [case files s p of
           None \<Rightarrow> Warning background_warning
         | Some d \<Rightarrow> StyleSheet (b64encode d)]\<rparr>)"
  by (simp add: try_except_only_def set_page_styling_def get_base64_of_bin_file_def
      read_file_def prog_defs split: option.splits)

lemma then_do_styling:
  "then_do (try_except_only ''FileNotFoundError'' (set_page_styling p)
     (\<lambda>e. emit (Warning background_warning))) f s =
   f () (s\<lparr>page := page s @
        [case files s p of
           None \<Rightarrow> Warning background_warning
         | Some d \<Rightarrow> StyleSheet (b64encode d)]\<rparr>)"
  by (simp add: then_do_def styling_eq)

lemma show_eq:
  "then_do show_texts (\<lambda>_. show_audio) s =
   (Return (),
    s\<lparr>page := page s @
        (if rewritten_text s \<noteq> [] then
           [Header ([128214] @ lit '' Original vs. Rewritten Text''), Columns [1, 1],
            Subheader (lit ''Original Text''), Info (original_text s),
            Subheader (lit ''Rewritten Text''), Success (rewritten_text s)]
         else []) @
        (case audio_file s of
           Some d \<Rightarrow>
             if d \<noteq> [] then
               [Header ([128266] @ lit '' Listen to Your Audiobook''),
                Audio d (lit ''audio/mp3''),
                DownloadButton ([128229] @ lit '' Download MP3'') d download_filename
                  (lit ''audio/mp3'')]
             else []
         | None \<Rightarrow> [])\<rparr>)"
  by (simp add: show_texts_def show_audio_def emit_all_eq then_do_def ret_def
      del: emit_all.simps split: option.splits)

subsection \<open>The runs of the handler and of the script, case by case\<close>

lemma rewrite_and_narrate_cases:
  assumes "rewrite_and_narrate en inp s = (r, s')"
  shows "r = Return () \<and>
    ((strip (original_text s) = [] \<and> s' = s\<lparr>page := page s @ [Warning blank_warning]\<rparr>)
     \<or> (strip (original_text s) \<noteq> [] \<and>
         (\<exists>e. generate_content en model_name
                (rewrite_prompt (original_text s) (tone inp) (gender inp) (prompt_addition inp))
              = Inl e \<and>
           s' = s\<lparr>page := page s @
                   [Spinner spinner_text,
                    GenerateContent model_name
                      (rewrite_prompt (original_text s) (tone inp) (gender inp)
                         (prompt_addition inp)),
                    Error (lit ''An error occurred with the AI model: '' @ str_exn e),
                    Error no_rewrite_error],
                 rewritten_text := []\<rparr>))
     \<or> (strip (original_text s) \<noteq> [] \<and>
         generate_content en model_name
           (rewrite_prompt (original_text s) (tone inp) (gender inp) (prompt_addition inp))
         = Inr [] \<and>
         s' = s\<lparr>page := page s @
                 [Spinner spinner_text,
                  GenerateContent model_name
                    (rewrite_prompt (original_text s) (tone inp) (gender inp)
                       (prompt_addition inp)),
                  Error no_rewrite_error],
               rewritten_text := []\<rparr>)
     \<or> (strip (original_text s) \<noteq> [] \<and>
         (\<exists>t b. t \<noteq> [] \<and>
            generate_content en model_name
              (rewrite_prompt (original_text s) (tone inp) (gender inp) (prompt_addition inp))
            = Inr t \<and>
            edge_tts_save en t (select_voice (gender inp)) = Saved b \<and>
            s' = s\<lparr>page := page s @
                    [Spinner spinner_text,
                     GenerateContent model_name
                       (rewrite_prompt (original_text s) (tone inp) (gender inp)
                          (prompt_addition inp)),
                     Speech t (select_voice (gender inp)) narration_mp3,
                     Success (lit ''Audiobook generated successfully!'')],
                  rewritten_text := t,
                  files := (files s)(narration_mp3 \<mapsto> b),
                  audio_file := Some b\<rparr>))
     \<or> (strip (original_text s) \<noteq> [] \<and>
         (\<exists>t e left. t \<noteq> [] \<and>
            generate_content en model_name
              (rewrite_prompt (original_text s) (tone inp) (gender inp) (prompt_addition inp))
            = Inr t \<and>
            edge_tts_save en t (select_voice (gender inp)) = SaveFailed e left \<and>
            s' = s\<lparr>page := page s @
                    [Spinner spinner_text,
                     GenerateContent model_name
                       (rewrite_prompt (original_text s) (tone inp) (gender inp)
                          (prompt_addition inp)),
                     Speech t (select_voice (gender inp)) narration_mp3,
                     Error (lit ''Failed to generate audio: '' @ str_exn e),
                     Error no_audio_error],
                  rewritten_text := t,
                  files := (case left of None \<Rightarrow> files s
                            | Some b \<Rightarrow> (files s)(narration_mp3 \<mapsto> b))\<rparr>)))"
proof (cases "strip (original_text s) = []")
  case True
  with assms show ?thesis by (auto simp add: rewrite_and_narrate_eq)
next
  case False
  show ?thesis
  proof (cases "generate_content en model_name
           (rewrite_prompt (original_text s) (tone inp) (gender inp) (prompt_addition inp))")
    case (Inl e)
    with assms False show ?thesis
      by (auto simp add: rewrite_and_narrate_eq narrate_eq)
  next
    case (Inr t)
    show ?thesis
    proof (cases "t = []")
      case True
      with assms False Inr show ?thesis
        by (auto simp add: rewrite_and_narrate_eq narrate_eq)
    next
      case nonempty: False
      show ?thesis
      proof (cases "edge_tts_save en t (select_voice (gender inp))")
        case (Saved b)
        with assms False Inr nonempty show ?thesis
          by (auto simp add: rewrite_and_narrate_eq narrate_eq)
      next
        case (SaveFailed e left)
        with assms False Inr nonempty show ?thesis
          by (auto simp add: rewrite_and_narrate_eq narrate_eq split: option.splits)
      qed
    qed
  qed
qed

lemma load_original_cases:
  assumes "load_original en inp s = (r, s')"
  shows "(r = Return () \<and> (\<exists>t. s' = s\<lparr>original_text := t\<rparr>))
       \<or> (r = Return () \<and> s' = s)
       \<or> (r = Return () \<and> (\<exists>m. s' = s\<lparr>page := page s @ [Error m], original_text := []\<rparr>))
       \<or> ((\<exists>e. r = Raise e) \<and> s' = s)"
  using assms
  by (auto simp add: load_original_eq split: option.splits sum.splits if_splits)

lemma on_generate_Return:
  assumes "load_original en inp s = (Return u, s1)"
  shows "on_generate en inp s = rewrite_and_narrate en inp s1"
  using assms by (simp add: on_generate_eq)

lemma on_generate_Raise:
  assumes "load_original en inp s = (r1, s1)" and "r1 \<noteq> Return ()"
  shows "s1 = s \<and> on_generate en inp s = (r1, s) \<and> (\<exists>e. r1 = Raise e)"
  using load_original_cases [OF assms(1)] assms by (auto simp add: on_generate_eq)

lemma on_generate_original_text:
  "original_text (snd (on_generate en inp s)) = original_text (snd (load_original en inp s))"
proof -
  obtain r1 s1 where load: "load_original en inp s = (r1, s1)"
    by (cases "load_original en inp s") simp
  show ?thesis
  proof (cases "r1 = Return ()")
    case True
    obtain r2 s2 where run: "rewrite_and_narrate en inp s1 = (r2, s2)"
      by (cases "rewrite_and_narrate en inp s1") simp
    from rewrite_and_narrate_cases [OF run] load True run show ?thesis
      by (auto simp add: on_generate_Return)
  next
    case False
    from on_generate_Raise [OF load False] load show ?thesis by auto
  qed
qed

lemma narrate_text_input:
  "narrate en (inp\<lparr>text_input := pasted\<rparr>) = narrate en inp"
  by (rule ext) (simp add: narrate_eq split: tts_result.splits)

lemma rewrite_and_narrate_text_input:
  "rewrite_and_narrate en (inp\<lparr>text_input := pasted\<rparr>) = rewrite_and_narrate en inp"
  by (rule ext) (simp add: rewrite_and_narrate_eq narrate_text_input split: sum.splits)

lemma handler_shape:
  assumes "(if button inp then on_generate en inp else ret ()) s = (r, s')"
  shows "\<exists>evs. page s' = page s @ evs \<and> filter is_download evs = [] \<and>
     ((\<not> list_ex is_speech_call evs \<and> audio_file s' = audio_file s)
      \<or> (r = Return () \<and> list_ex is_speech_call evs \<and> rewritten_text s' \<noteq> [] \<and>
          (\<exists>b. edge_tts_save en (rewritten_text s') (select_voice (gender inp)) = Saved b
             \<and> audio_file s' = Some b))
      \<or> (r = Return () \<and> list_ex is_speech_call evs \<and> rewritten_text s' \<noteq> [] \<and>
          audio_file s' = audio_file s \<and>
          (\<exists>e left. edge_tts_save en (rewritten_text s') (select_voice (gender inp))
             = SaveFailed e left) \<and>
          (\<exists>p. generate_content en model_name p = Inr (rewritten_text s'))))"
proof (cases "button inp")
  case False
  with assms show ?thesis by (auto simp add: ret_def)
next
  case True
  with assms have og: "on_generate en inp s = (r, s')" by simp
  obtain r1 s1 where load: "load_original en inp s = (r1, s1)"
    by (cases "load_original en inp s") simp
  obtain evs1 where evs1: "page s1 = page s @ evs1" "filter is_download evs1 = []"
    "\<not> list_ex is_speech_call evs1" "audio_file s1 = audio_file s"
    using load_original_cases [OF load] by auto
  show ?thesis
  proof (cases "r1 = Return ()")
    case True
    with load og have run: "rewrite_and_narrate en inp s1 = (r, s')"
      by (simp add: on_generate_Return)
    from rewrite_and_narrate_cases [OF run] evs1 show ?thesis
      by (elim conjE disjE exE) (simp_all, blast+)
  next
    case False
    from on_generate_Raise [OF load False] og show ?thesis by auto
  qed
qed

lemma handler_cases [consumes 1, case_names quiet saved failed]:
  assumes "(if button inp then on_generate en inp else ret ()) s = (r, s')"
  obtains evs where "page s' = page s @ evs" and "filter is_download evs = []"
      and "\<not> list_ex is_speech_call evs" and "audio_file s' = audio_file s"
  | evs b where "page s' = page s @ evs" and "filter is_download evs = []"
      and "list_ex is_speech_call evs" and "r = Return ()" and "rewritten_text s' \<noteq> []"
      and "edge_tts_save en (rewritten_text s') (select_voice (gender inp)) = Saved b"
      and "audio_file s' = Some b"
  | evs e left p where "page s' = page s @ evs" and "filter is_download evs = []"
      and "list_ex is_speech_call evs" and "r = Return ()" and "rewritten_text s' \<noteq> []"
      and "edge_tts_save en (rewritten_text s') (select_voice (gender inp)) = SaveFailed e left"
      and "audio_file s' = audio_file s"
      and "generate_content en model_name p = Inr (rewritten_text s')"
  using handler_shape [OF assms] by blast

lemma app_shape:
  assumes "app en inp s = (r, s')"
  shows "(r = Stop \<and>
          (\<exists>pre. s' = s\<lparr>page := page s @ pre\<rparr> \<and> filter is_download pre = []
             \<and> \<not> list_ex is_speech_call pre))
       \<or> (\<exists>pre r1 s1. filter is_download pre = [] \<and> \<not> list_ex is_speech_call pre \<and>
            (if button inp then on_generate en inp else ret ()) (s\<lparr>page := page s @ pre\<rparr>)
              = (r1, s1) \<and>
            ((r1 \<noteq> Return () \<and> r = r1 \<and> s' = s1)
             \<or> (r1 = Return () \<and> (r, s') = then_do show_texts (\<lambda>_. show_audio) s1)))"
proof (cases "load_api_key en (s\<lparr>page := page s @ [PageConfig (lit ''EchoVerse'') [127911] (lit ''wide'')]\<rparr>)")
  case (Pair r0 s0)
  show ?thesis
  proof (cases "r0 = Return ()")
    case False
    with Pair assms show ?thesis
      by (auto simp add: app_def then_do_def emit_def load_api_key_eq
          split: option.splits outcome.splits)
  next
    case True
    with Pair obtain k where s0: "s0 = s\<lparr>page := page s @
        [PageConfig (lit ''EchoVerse'') [127911] (lit ''wide''), Configure k]\<rparr>"
      by (auto simp add: load_api_key_eq split: option.splits)
    let ?pre = "[PageConfig (lit ''EchoVerse'') [127911] (lit ''wide''), Configure k,
        (case files s (lit ''background.jpg'') of
           None \<Rightarrow> Warning background_warning
         | Some d \<Rightarrow> StyleSheet (b64encode d))] @
       [Columns [1, 2, 1],
        Title ([127911] @ lit '' EchoVerse''),
        Markdown (lit ''### Your AI-Powered Audiobook Creation Tool''),
        Subheader (lit ''Step 1: Provide Your Text''),
        Tabs [[9997, 65039] @ lit '' Paste Text'', [128194] @ lit '' Upload File''],
        TextArea (lit ''Paste your text here:''),
        FileUploader (lit ''Upload your file here:'') [lit ''txt'', lit ''docx''],
        Subheader (lit ''Step 2: Customize Your Audiobook''),
        Columns [1, 1],
        Selectbox (lit ''Choose a Tone'') tones,
        Radio (lit ''Choose a Voice Gender'') [lit ''Female'', lit ''Male''],
        TextInput (lit ''Optional: Add specific instructions for the AI''),
        Button ([128640] @ lit '' Generate Audiobook'')]"
    have pre: "filter is_download ?pre = []" "\<not> list_ex is_speech_call ?pre"
      by (simp_all split: option.splits)
    have app: "app en inp s =
      then_do (if button inp then on_generate en inp else ret ())
        (\<lambda>_. then_do show_texts (\<lambda>_. show_audio)) (s\<lparr>page := page s @ ?pre\<rparr>)"
      using Pair True s0
      by (simp add: app_def then_do_emit then_do_def [of "load_api_key _"]
          then_do_styling layout_def then_do_emit_all del: emit_all.simps)
    obtain r1 s1 where h: "(if button inp then on_generate en inp else ret ())
        (s\<lparr>page := page s @ ?pre\<rparr>) = (r1, s1)"
      by (cases "(if button inp then on_generate en inp else ret ()) (s\<lparr>page := page s @ ?pre\<rparr>)")
    have "(r1 \<noteq> Return () \<and> r = r1 \<and> s' = s1)
        \<or> (r1 = Return () \<and> (r, s') = then_do show_texts (\<lambda>_. show_audio) s1)"
      using assms app h
      by (cases r1) (auto simp add: then_do_def [of "if _ then _ else _"])
    with pre h show ?thesis by blast
  qed
qed

lemma app_cases [consumes 1, case_names stopped raised shown]:
  assumes "app en inp s = (r, s')"
  obtains pre where "r = Stop" and "s' = s\<lparr>page := page s @ pre\<rparr>"
      and "filter is_download pre = []" and "\<not> list_ex is_speech_call pre"
  | pre where "filter is_download pre = []" and "\<not> list_ex is_speech_call pre"
      and "(if button inp then on_generate en inp else ret ()) (s\<lparr>page := page s @ pre\<rparr>)
           = (r, s')"
      and "r \<noteq> Return ()"
  | pre s1 where "filter is_download pre = []" and "\<not> list_ex is_speech_call pre"
      and "(if button inp then on_generate en inp else ret ()) (s\<lparr>page := page s @ pre\<rparr>)
           = (Return (), s1)"
      and "(r, s') = then_do show_texts (\<lambda>_. show_audio) s1"
  using app_shape [OF assms] by blast


lemma shown_session:
  assumes "(r, s') = then_do show_texts (\<lambda>_. show_audio) s1"
  shows "r = Return ()" and "rewritten_text s' = rewritten_text s1"
    and "audio_file s' = audio_file s1" and "original_text s' = original_text s1"
    and "list_ex is_speech_call (page s') = list_ex is_speech_call (page s1)"
  using assms by (simp_all add: show_eq split: option.splits)

lemmas eval_simps = on_generate_eq load_original_eq rewrite_and_narrate_eq narrate_eq
  get_rewritten_text_eq generate_audio_eq lit_def strip_def is_space_def select_voice_def
  voice_map_def

lemmas run_simps = run_script_def app_def initial_state_def then_do_def emit_def ret_def
  load_api_key_eq load_dotenv_def styling_eq layout_def emit_all_eq show_texts_def
  show_audio_def mime_txt_def mime_docx_def is_cont_def

subsection \<open>Failures of the remote calls\<close>

text \<open>
  Claim C1. Whatever the input, a failure of the rewrite call inside \<open>get_rewritten_text\<close>
  and a failure of the speech call inside \<open>generate_audio\<close> are caught where the call is
  made and shown as an \<^verbatim>\<open>st.error\<close> message on the page; \<open>get_rewritten_text\<close> then
  returns the empty string and \<open>generate_audio\<close> returns \<^verbatim>\<open>None\<close>, and neither
  function ever raises to its caller.
\<close>

theorem remote_failures_caught:
  "(original \<noteq> [] \<and>
    generate_content en model_name (rewrite_prompt original tn gd addition) = Inl e \<longrightarrow>
      get_rewritten_text en original tn gd addition s =
        (Return [],
         s\<lparr>page := page s @
             [GenerateContent model_name (rewrite_prompt original tn gd addition),
              Error (lit ''An error occurred with the AI model: '' @ str_exn e)]\<rparr>))
   \<and> (edge_tts_save en text (select_voice gd) = SaveFailed e' left \<longrightarrow>
        fst (generate_audio en text gd out s) = Return None \<and>
        page (snd (generate_audio en text gd out s)) =
          page s @ [Speech text (select_voice gd) out,
                    Error (lit ''Failed to generate audio: '' @ str_exn e')])
   \<and> (\<exists>t. fst (get_rewritten_text en original tn gd addition s) = Return t)
   \<and> (\<exists>p. fst (generate_audio en text gd out s) = Return p)"
  by (simp add: get_rewritten_text_eq generate_audio_eq split: sum.splits tts_result.splits)

theorem remote_failures_caught_witness:
  "lit ''Once'' \<noteq> []
   \<and> generate_content
       \<lparr>environ = [GOOGLE_API_KEY \<mapsto> lit ''key''], dotenv = Map.empty,
      genai_configure = (\<lambda>k. None),
      generate_content = (\<lambda>m p. Inl (Exn ''TimeoutError'' (lit ''timed out''))),
      edge_tts_save = (\<lambda>t v. SaveFailed (Exn ''NoAudioReceived'' (lit ''no audio'')) None),
      docx_document = (\<lambda>b. Inr [])\<rparr>
       model_name (rewrite_prompt (lit ''Once'') (lit ''Happy'') (lit ''Male'') []) 
     = Inl (Exn ''TimeoutError'' (lit ''timed out''))
   \<and> get_rewritten_text
       \<lparr>environ = [GOOGLE_API_KEY \<mapsto> lit ''key''], dotenv = Map.empty,
      genai_configure = (\<lambda>k. None),
      generate_content = (\<lambda>m p. Inl (Exn ''TimeoutError'' (lit ''timed out''))),
      edge_tts_save = (\<lambda>t v. SaveFailed (Exn ''NoAudioReceived'' (lit ''no audio'')) None),
      docx_document = (\<lambda>b. Inr [])\<rparr>
       (lit ''Once'') (lit ''Happy'') (lit ''Male'') []
       \<lparr>original_text = [], rewritten_text = [], audio_file = None, files = Map.empty,
        page = []\<rparr>
     = (Return [],
        \<lparr>original_text = [], rewritten_text = [], audio_file = None, files = Map.empty,
         page = [GenerateContent model_name
                   (rewrite_prompt (lit ''Once'') (lit ''Happy'') (lit ''Male'') []),
                 Error (lit ''An error occurred with the AI model: timed out'')]\<rparr>)
   \<and> edge_tts_save
       \<lparr>environ = [GOOGLE_API_KEY \<mapsto> lit ''key''], dotenv = Map.empty,
      genai_configure = (\<lambda>k. None),
      generate_content = (\<lambda>m p. Inl (Exn ''TimeoutError'' (lit ''timed out''))),
      edge_tts_save = (\<lambda>t v. SaveFailed (Exn ''NoAudioReceived'' (lit ''no audio'')) None),
      docx_document = (\<lambda>b. Inr [])\<rparr>
       (lit ''Once'') (select_voice (lit ''Male''))
     = SaveFailed (Exn ''NoAudioReceived'' (lit ''no audio'')) None
   \<and> generate_audio
       \<lparr>environ = [GOOGLE_API_KEY \<mapsto> lit ''key''], dotenv = Map.empty,
      genai_configure = (\<lambda>k. None),
      generate_content = (\<lambda>m p. Inl (Exn ''TimeoutError'' (lit ''timed out''))),
      edge_tts_save = (\<lambda>t v. SaveFailed (Exn ''NoAudioReceived'' (lit ''no audio'')) None),
      docx_document = (\<lambda>b. Inr [])\<rparr>
       (lit ''Once'') (lit ''Male'') narration_mp3
       \<lparr>original_text = [], rewritten_text = [], audio_file = None, files = Map.empty,
        page = []\<rparr>
     = (Return None,
        \<lparr>original_text = [], rewritten_text = [], audio_file = None, files = Map.empty,
         page = [Speech (lit ''Once'') (lit ''en-US-GuyNeural'') narration_mp3,
                 Error (lit ''Failed to generate audio: no audio'')]\<rparr>)"
  using remote_failures_caught
    [where en = "\<lparr>environ = [GOOGLE_API_KEY \<mapsto> lit ''key''], dotenv = Map.empty,
      genai_configure = (\<lambda>k. None),
      generate_content = (\<lambda>m p. Inl (Exn ''TimeoutError'' (lit ''timed out''))),
      edge_tts_save = (\<lambda>t v. SaveFailed (Exn ''NoAudioReceived'' (lit ''no audio'')) None),
      docx_document = (\<lambda>b. Inr [])\<rparr>"
       and original = "lit ''Once''" and tn = "lit ''Happy''" and gd = "lit ''Male''"
       and addition = "[]" and ?text = "lit ''Once''" and out = narration_mp3
       and e = "Exn ''TimeoutError'' (lit ''timed out'')"
       and e' = "Exn ''NoAudioReceived'' (lit ''no audio'')" and left = None
       and s = "\<lparr>original_text = [], rewritten_text = [], audio_file = None, files = Map.empty,
        page = []\<rparr>"]
  by (simp add: eval_simps)

subsection \<open>When the remote calls are made\<close>



text \<open>
  Claim C3. When the original text is not blank and the rewrite call succeeds, the
  rewritten text stored in the session is the \<^verbatim>\<open>text\<close> of the response, unchanged, and
  \<open>get_rewritten_text\<close> returns it as it is.
\<close>

theorem rewritten_text_verbatim:
  assumes "load_original en inp s = (Return (), s1)"
    and "strip (original_text s1) \<noteq> []"
    and "generate_content en model_name
           (rewrite_prompt (original_text s1) (tone inp) (gender inp) (prompt_addition inp))
         = Inr t"
  shows "rewritten_text (snd (on_generate en inp s)) = t
     \<and> get_rewritten_text en (original_text s1) (tone inp) (gender inp) (prompt_addition inp) s1
       = (Return t,
          s1\<lparr>page := page s1 @
              [GenerateContent model_name
                 (rewrite_prompt (original_text s1) (tone inp) (gender inp)
                    (prompt_addition inp))]\<rparr>)"
proof -
  obtain r2 s2 where run: "rewrite_and_narrate en inp s1 = (r2, s2)"
    by (cases "rewrite_and_narrate en inp s1") simp
  have "original_text s1 \<noteq> []" using assms(2) strip_Nil by auto
  with rewrite_and_narrate_cases [OF run] assms run show ?thesis
    by (auto simp add: on_generate_Return get_rewritten_text_eq)
qed

theorem rewritten_text_verbatim_witness:
  "load_original
       \<lparr>environ = [GOOGLE_API_KEY \<mapsto> lit ''key''], dotenv = Map.empty,
      genai_configure = (\<lambda>k. None),
      generate_content = (\<lambda>m p. Inr (lit ''Hello'')),
      edge_tts_save = (\<lambda>t v. Saved [73, 68, 51]),
      docx_document = (\<lambda>b. Inr [])\<rparr>
       \<lparr>text_input = lit ''Once upon a time'', uploaded_file = None, tone = lit ''Happy'',
      gender = lit ''Male'', prompt_addition = [], button = True\<rparr>
       \<lparr>original_text = [], rewritten_text = [], audio_file = None, files = Map.empty,
        page = []\<rparr>
     = (Return (),
        \<lparr>original_text = lit ''Once upon a time'', rewritten_text = [], audio_file = None,
         files = Map.empty, page = []\<rparr>)
   \<and> strip (lit ''Once upon a time'') \<noteq> []
   \<and> generate_content
       \<lparr>environ = [GOOGLE_API_KEY \<mapsto> lit ''key''], dotenv = Map.empty,
      genai_configure = (\<lambda>k. None),
      generate_content = (\<lambda>m p. Inr (lit ''Hello'')),
      edge_tts_save = (\<lambda>t v. Saved [73, 68, 51]),
      docx_document = (\<lambda>b. Inr [])\<rparr>
       model_name
       (rewrite_prompt (lit ''Once upon a time'') (lit ''Happy'') (lit ''Male'') [])
     = Inr (lit ''Hello'')
   \<and> rewritten_text (snd (on_generate
       \<lparr>environ = [GOOGLE_API_KEY \<mapsto> lit ''key''], dotenv = Map.empty,
      genai_configure = (\<lambda>k. None),
      generate_content = (\<lambda>m p. Inr (lit ''Hello'')),
      edge_tts_save = (\<lambda>t v. Saved [73, 68, 51]),
      docx_document = (\<lambda>b. Inr [])\<rparr>
       \<lparr>text_input = lit ''Once upon a time'', uploaded_file = None, tone = lit ''Happy'',
      gender = lit ''Male'', prompt_addition = [], button = True\<rparr>
       \<lparr>original_text = [], rewritten_text = [], audio_file = None, files = Map.empty,
        page = []\<rparr>))
     = lit ''Hello''"
  using rewritten_text_verbatim
    [where en = "\<lparr>environ = [GOOGLE_API_KEY \<mapsto> lit ''key''], dotenv = Map.empty,
      genai_configure = (\<lambda>k. None),
      generate_content = (\<lambda>m p. Inr (lit ''Hello'')),
      edge_tts_save = (\<lambda>t v. Saved [73, 68, 51]),
      docx_document = (\<lambda>b. Inr [])\<rparr>"
       and inp = "\<lparr>text_input = lit ''Once upon a time'', uploaded_file = None, tone = lit ''Happy'',
      gender = lit ''Male'', prompt_addition = [], button = True\<rparr>"
       and s = "\<lparr>original_text = [], rewritten_text = [], audio_file = None, files = Map.empty,
        page = []\<rparr>"
       and ?s1.0 = "\<lparr>original_text = lit ''Once upon a time'', rewritten_text = [],
         audio_file = None, files = Map.empty, page = []\<rparr>"
       and t = "lit ''Hello''"]
  by (simp add: eval_simps)

text \<open>
  Claim C4. One press of the generate button makes no remote call, or one rewrite call, or
  one rewrite call followed by one speech call, in that order; the speech call is made only
  on the non-empty text the rewrite call returned, and no call is made twice.
\<close>

theorem one_rewrite_then_one_speech:
  "\<exists>evs. page (snd (on_generate en inp s)) = page s @ evs \<and>
     (filter is_remote_call evs = [] \<or>
      (\<exists>p. filter is_remote_call evs = [GenerateContent model_name p]) \<or>
      (\<exists>p t. filter is_remote_call evs =
               [GenerateContent model_name p, Speech t (select_voice (gender inp)) narration_mp3]
             \<and> generate_content en model_name p = Inr t \<and> t \<noteq> []))"
proof -
  obtain r1 s1 where load: "load_original en inp s = (r1, s1)"
    by (cases "load_original en inp s") simp
  obtain evs1 where evs1: "page s1 = page s @ evs1" "filter is_remote_call evs1 = []"
    using load_original_cases [OF load] by (auto simp add: is_remote_call_def)
  show ?thesis
  proof (cases r1)
    case (Return u)
    obtain r2 s2 where run: "rewrite_and_narrate en inp s1 = (r2, s2)"
      by (cases "rewrite_and_narrate en inp s1") simp
    have og: "on_generate en inp s = (r2, s2)"
      using load Return run by (simp add: on_generate_eq)
    from rewrite_and_narrate_cases [OF run] evs1 show ?thesis
      unfolding og by (auto simp add: is_remote_call_def)
  next
    case (Raise e)
    with load evs1 show ?thesis by (auto simp add: on_generate_eq)
  next
    case Stop
    with load evs1 show ?thesis by (auto simp add: on_generate_eq)
  qed
qed

theorem one_rewrite_then_one_speech_witness:
  "filter is_remote_call
     (page (snd (on_generate
       \<lparr>environ = [GOOGLE_API_KEY \<mapsto> lit ''key''], dotenv = Map.empty,
      genai_configure = (\<lambda>k. None),
      generate_content = (\<lambda>m p. Inr (lit ''Hello'')),
      edge_tts_save = (\<lambda>t v. Saved [73, 68, 51]),
      docx_document = (\<lambda>b. Inr [])\<rparr>
       \<lparr>text_input = lit ''Once upon a time'', uploaded_file = None, tone = lit ''Happy'',
      gender = lit ''Male'', prompt_addition = [], button = True\<rparr>
       \<lparr>original_text = [], rewritten_text = [], audio_file = None, files = Map.empty,
        page = []\<rparr>)))
   = [GenerateContent model_name
        (rewrite_prompt (lit ''Once upon a time'') (lit ''Happy'') (lit ''Male'') []),
      Speech (lit ''Hello'') (lit ''en-US-GuyNeural'') narration_mp3]"
  using one_rewrite_then_one_speech
    [where en = "\<lparr>environ = [GOOGLE_API_KEY \<mapsto> lit ''key''], dotenv = Map.empty,
      genai_configure = (\<lambda>k. None),
      generate_content = (\<lambda>m p. Inr (lit ''Hello'')),
      edge_tts_save = (\<lambda>t v. Saved [73, 68, 51]),
      docx_document = (\<lambda>b. Inr [])\<rparr>"
       and inp = "\<lparr>text_input = lit ''Once upon a time'', uploaded_file = None, tone = lit ''Happy'',
      gender = lit ''Male'', prompt_addition = [], button = True\<rparr>"
       and s = "\<lparr>original_text = [], rewritten_text = [], audio_file = None, files = Map.empty,
        page = []\<rparr>"]
  by (simp add: eval_simps is_remote_call_def)

subsection \<open>Uploaded documents\<close>

text \<open>
  Claim C5, at an uploaded plain-text file that is not UTF-8 (the single byte 0xFF): the
  \<^verbatim>\<open>UnicodeDecodeError\<close> of line 182 leaves the handler, and no message is written to
  the page.
\<close>

theorem undecodable_text_upload_raises:
  "on_generate en
     \<lparr>text_input = pasted, uploaded_file = Some \<lparr>ftype = mime_txt, fdata = [255]\<rparr>,
      tone = tn, gender = gd, prompt_addition = addition, button = True\<rparr> s
   = (Raise (Exn ''UnicodeDecodeError'' (lit ''invalid utf-8'')), s)"
  by (simp add: on_generate_eq load_original_eq)

text \<open>
  The other kind of upload, a word-processing document that \<^verbatim>\<open>Document\<close> cannot open,
  is caught in \<open>read_docx\<close> and shown as a message.
\<close>

lemma unreadable_docx_caught:
  assumes "uploaded_file inp = Some f" and "ftype f = mime_docx"
    and "docx_document en (fdata f) = Inl e"
  shows "load_original en inp s =
     (Return (),
      s\<lparr>page := page s @ [Error (lit ''Error reading DOCX file: '' @ str_exn e)],
         original_text := []\<rparr>)"
  using assms by (simp add: load_original_eq mime_docx_def mime_txt_def lit_def)

text \<open>
  Claim C8 as stated fails for an uploaded file whose type is neither of the two the
  handler tests: the original text stays what the session held, here \<^verbatim>\<open>old\<close>, and is not
  the file's content \<^verbatim>\<open>new\<close>.
\<close>

theorem upload_of_other_type_counterexample:
  "utf8_decode [110, 101, 119] = Some (lit ''new'')
   \<and> original_text (snd (on_generate
       \<lparr>environ = [GOOGLE_API_KEY \<mapsto> lit ''key''], dotenv = Map.empty,
      genai_configure = (\<lambda>k. None),
      generate_content = (\<lambda>m p. Inr (lit ''Hello'')),
      edge_tts_save = (\<lambda>t v. Saved [73, 68, 51]),
      docx_document = (\<lambda>b. Inr [])\<rparr>
       \<lparr>text_input = lit ''pasted'',
      uploaded_file = Some \<lparr>ftype = lit ''application/octet-stream'', fdata = [110, 101, 119]\<rparr>,
      tone = lit ''Happy'',
      gender = lit ''Male'', prompt_addition = [], button = True\<rparr>
       \<lparr>original_text = lit ''old'', rewritten_text = [], audio_file = None,
        files = Map.empty, page = []\<rparr>))
     = lit ''old''
   \<and> lit ''old'' \<noteq> lit ''new''"
  by (simp add: eval_simps run_simps)

text \<open>
  Claim C8, as amended. When a file has been uploaded, the pasted text is never used: the
  handler does the same whatever the text box holds. The original text is the decoded
  content of a \<^verbatim>\<open>text/plain\<close> file that is UTF-8, and the paragraphs joined by newlines
  of a word-processing document that can be read. The pasted text is the original text
  when no file is uploaded.
\<close>

theorem upload_takes_priority:
  "(uploaded_file inp = None \<longrightarrow>
      original_text (snd (on_generate en inp s)) = text_input inp)
   \<and> (uploaded_file inp = Some f \<and> ftype f = mime_txt \<and> utf8_decode (fdata f) = Some t \<longrightarrow>
      original_text (snd (on_generate en inp s)) = t)
   \<and> (uploaded_file inp = Some f \<and> ftype f = mime_docx
        \<and> docx_document en (fdata f) = Inr paras \<longrightarrow>
      original_text (snd (on_generate en inp s)) = join [10] paras)
   \<and> (uploaded_file inp = Some f \<longrightarrow>
      on_generate en (inp\<lparr>text_input := pasted\<rparr>) s = on_generate en inp s)"
proof -
  have neq: "mime_docx \<noteq> mime_txt"
    by (simp add: mime_docx_def mime_txt_def lit_def)
  have pasted: "uploaded_file inp = None \<longrightarrow>
      original_text (snd (on_generate en inp s)) = text_input inp"
    by (simp add: on_generate_original_text load_original_eq)
  have plain: "uploaded_file inp = Some f \<and> ftype f = mime_txt
        \<and> utf8_decode (fdata f) = Some t \<longrightarrow>
      original_text (snd (on_generate en inp s)) = t"
    by (simp add: on_generate_original_text load_original_eq)
  have docx: "uploaded_file inp = Some f \<and> ftype f = mime_docx
        \<and> docx_document en (fdata f) = Inr paras \<longrightarrow>
      original_text (snd (on_generate en inp s)) = join [10] paras"
    using neq by (simp add: on_generate_original_text load_original_eq)
  have ignored: "uploaded_file inp = Some f \<longrightarrow>
      on_generate en (inp\<lparr>text_input := pasted\<rparr>) s = on_generate en inp s"
    by (simp add: on_generate_eq load_original_eq rewrite_and_narrate_text_input
        split: option.splits sum.splits)
  from pasted plain docx ignored show ?thesis by blast
qed

theorem upload_takes_priority_witness:
  "original_text (snd (on_generate
       \<lparr>environ = [GOOGLE_API_KEY \<mapsto> lit ''key''], dotenv = Map.empty,
      genai_configure = (\<lambda>k. None),
      generate_content = (\<lambda>m p. Inr (lit ''Hello'')),
      edge_tts_save = (\<lambda>t v. Saved [73, 68, 51]),
      docx_document = (\<lambda>b. Inr [])\<rparr>
       \<lparr>text_input = lit ''Once upon a time'', uploaded_file = None, tone = lit ''Happy'',
      gender = lit ''Male'', prompt_addition = [], button = True\<rparr>
       \<lparr>original_text = [], rewritten_text = [], audio_file = None, files = Map.empty,
        page = []\<rparr>))
     = lit ''Once upon a time''
   \<and> utf8_decode [72, 105] = Some (lit ''Hi'')
   \<and> original_text (snd (on_generate
       \<lparr>environ = [GOOGLE_API_KEY \<mapsto> lit ''key''], dotenv = Map.empty,
      genai_configure = (\<lambda>k. None),
      generate_content = (\<lambda>m p. Inr (lit ''Hello'')),
      edge_tts_save = (\<lambda>t v. Saved [73, 68, 51]),
      docx_document = (\<lambda>b. Inr [])\<rparr>
       \<lparr>text_input = lit ''pasted'',
      uploaded_file = Some \<lparr>ftype = mime_txt, fdata = [72, 105]\<rparr>,
      tone = lit ''Happy'',
      gender = lit ''Male'', prompt_addition = [], button = True\<rparr>
       \<lparr>original_text = [], rewritten_text = [], audio_file = None, files = Map.empty,
        page = []\<rparr>))
     = lit ''Hi''
   \<and> original_text (snd (on_generate
       \<lparr>environ = [GOOGLE_API_KEY \<mapsto> lit ''key''], dotenv = Map.empty,
      genai_configure = (\<lambda>k. None),
      generate_content = (\<lambda>m p. Inr (lit ''Hello'')),
      edge_tts_save = (\<lambda>t v. Saved [73, 68, 51]),
      docx_document = (\<lambda>b. Inr [lit ''One'', lit ''Two''])\<rparr>
       \<lparr>text_input = lit ''pasted'',
      uploaded_file = Some \<lparr>ftype = mime_docx, fdata = [80, 75]\<rparr>,
      tone = lit ''Happy'',
      gender = lit ''Male'', prompt_addition = [], button = True\<rparr>
       \<lparr>original_text = [], rewritten_text = [], audio_file = None, files = Map.empty,
        page = []\<rparr>))
     = lit ''One'' @ [10] @ lit ''Two''
   \<and> on_generate
       \<lparr>environ = [GOOGLE_API_KEY \<mapsto> lit ''key''], dotenv = Map.empty,
      genai_configure = (\<lambda>k. None),
      generate_content = (\<lambda>m p. Inr (lit ''Hello'')),
      edge_tts_save = (\<lambda>t v. Saved [73, 68, 51]),
      docx_document = (\<lambda>b. Inr [])\<rparr>
       (\<lparr>text_input = lit ''pasted'',
      uploaded_file = Some \<lparr>ftype = mime_txt, fdata = [72, 105]\<rparr>,
      tone = lit ''Happy'',
      gender = lit ''Male'', prompt_addition = [], button = True\<rparr>
        \<lparr>text_input := lit ''something else''\<rparr>)
       \<lparr>original_text = [], rewritten_text = [], audio_file = None, files = Map.empty,
        page = []\<rparr>
     = on_generate
       \<lparr>environ = [GOOGLE_API_KEY \<mapsto> lit ''key''], dotenv = Map.empty,
      genai_configure = (\<lambda>k. None),
      generate_content = (\<lambda>m p. Inr (lit ''Hello'')),
      edge_tts_save = (\<lambda>t v. Saved [73, 68, 51]),
      docx_document = (\<lambda>b. Inr [])\<rparr>
       \<lparr>text_input = lit ''pasted'',
      uploaded_file = Some \<lparr>ftype = mime_txt, fdata = [72, 105]\<rparr>,
      tone = lit ''Happy'',
      gender = lit ''Male'', prompt_addition = [], button = True\<rparr>
       \<lparr>original_text = [], rewritten_text = [], audio_file = None, files = Map.empty,
        page = []\<rparr>"
  using upload_takes_priority
    [where en = "\<lparr>environ = [GOOGLE_API_KEY \<mapsto> lit ''key''], dotenv = Map.empty,
      genai_configure = (\<lambda>k. None),
      generate_content = (\<lambda>m p. Inr (lit ''Hello'')),
      edge_tts_save = (\<lambda>t v. Saved [73, 68, 51]),
      docx_document = (\<lambda>b. Inr [])\<rparr>"
       and inp = "\<lparr>text_input = lit ''Once upon a time'', uploaded_file = None, tone = lit ''Happy'',
      gender = lit ''Male'', prompt_addition = [], button = True\<rparr>"
       and s = "\<lparr>original_text = [], rewritten_text = [], audio_file = None, files = Map.empty,
        page = []\<rparr>"]
    upload_takes_priority
    [where en = "\<lparr>environ = [GOOGLE_API_KEY \<mapsto> lit ''key''], dotenv = Map.empty,
      genai_configure = (\<lambda>k. None),
      generate_content = (\<lambda>m p. Inr (lit ''Hello'')),
      edge_tts_save = (\<lambda>t v. Saved [73, 68, 51]),
      docx_document = (\<lambda>b. Inr [])\<rparr>"
       and inp = "\<lparr>text_input = lit ''pasted'',
      uploaded_file = Some \<lparr>ftype = mime_txt, fdata = [72, 105]\<rparr>,
      tone = lit ''Happy'',
      gender = lit ''Male'', prompt_addition = [], button = True\<rparr>"
       and s = "\<lparr>original_text = [], rewritten_text = [], audio_file = None, files = Map.empty,
        page = []\<rparr>"
       and f = "\<lparr>ftype = mime_txt, fdata = [72, 105]\<rparr>"
       and t = "lit ''Hi''" and pasted = "lit ''something else''"]
    upload_takes_priority
    [where en = "\<lparr>environ = [GOOGLE_API_KEY \<mapsto> lit ''key''], dotenv = Map.empty,
      genai_configure = (\<lambda>k. None),
      generate_content = (\<lambda>m p. Inr (lit ''Hello'')),
      edge_tts_save = (\<lambda>t v. Saved [73, 68, 51]),
      docx_document = (\<lambda>b. Inr [lit ''One'', lit ''Two''])\<rparr>"
       and inp = "\<lparr>text_input = lit ''pasted'',
      uploaded_file = Some \<lparr>ftype = mime_docx, fdata = [80, 75]\<rparr>,
      tone = lit ''Happy'',
      gender = lit ''Male'', prompt_addition = [], button = True\<rparr>"
       and s = "\<lparr>original_text = [], rewritten_text = [], audio_file = None, files = Map.empty,
        page = []\<rparr>"
       and f = "\<lparr>ftype = mime_docx, fdata = [80, 75]\<rparr>"
       and paras = "[lit ''One'', lit ''Two'']"]
  by (simp add: is_cont_def lit_def)

subsection \<open>Missing credential\<close>

text \<open>
  Claim C6. When \<^verbatim>\<open>GOOGLE_API_KEY\<close> is in neither the process environment nor the
  \<^verbatim>\<open>.env\<close> file, the \<^verbatim>\<open>KeyError\<close> is caught, the error message is shown, and the
  script stops: nothing else is rendered, the session is untouched and no remote call is
  made.
\<close>

theorem missing_credential_stops:
  assumes "environ en GOOGLE_API_KEY = None" and "dotenv en GOOGLE_API_KEY = None"
  shows "run_script en inp ss fs =
     (Stop,
      (initial_state ss fs)
        \<lparr>page := [PageConfig (lit ''EchoVerse'') [127911] (lit ''wide''),
                  Error key_error_message]\<rparr>)
     \<and> filter is_remote_call (page (snd (run_script en inp ss fs))) = []"
proof -
  have "load_dotenv en GOOGLE_API_KEY = None"
    using assms by (simp add: load_dotenv_def map_add_def)
  then show ?thesis
    by (simp add: run_script_def app_def then_do_emit then_do_def [of "load_api_key _"]
        load_api_key_eq initial_state_def is_remote_call_def)
qed

theorem missing_credential_stops_witness:
  "environ
       \<lparr>environ = Map.empty, dotenv = Map.empty,
      genai_configure = (\<lambda>k. None),
      generate_content = (\<lambda>m p. Inr (lit ''Hello'')),
      edge_tts_save = (\<lambda>t v. Saved [73, 68, 51]),
      docx_document = (\<lambda>b. Inr [])\<rparr>
       GOOGLE_API_KEY = None
   \<and> dotenv
       \<lparr>environ = Map.empty, dotenv = Map.empty,
      genai_configure = (\<lambda>k. None),
      generate_content = (\<lambda>m p. Inr (lit ''Hello'')),
      edge_tts_save = (\<lambda>t v. Saved [73, 68, 51]),
      docx_document = (\<lambda>b. Inr [])\<rparr>
       GOOGLE_API_KEY = None
   \<and> run_script
       \<lparr>environ = Map.empty, dotenv = Map.empty,
      genai_configure = (\<lambda>k. None),
      generate_content = (\<lambda>m p. Inr (lit ''Hello'')),
      edge_tts_save = (\<lambda>t v. Saved [73, 68, 51]),
      docx_document = (\<lambda>b. Inr [])\<rparr>
       \<lparr>text_input = lit ''Once upon a time'', uploaded_file = None, tone = lit ''Happy'',
      gender = lit ''Male'', prompt_addition = [], button = True\<rparr>
       \<lparr>stored_original = None, stored_rewritten = None, stored_audio = None\<rparr>
       Map.empty
     = (Stop,
        \<lparr>original_text = [], rewritten_text = [], audio_file = None, files = Map.empty,
         page = [PageConfig (lit ''EchoVerse'') [127911] (lit ''wide''),
                 Error key_error_message]\<rparr>)"
  using missing_credential_stops
    [where en = "\<lparr>environ = Map.empty, dotenv = Map.empty,
      genai_configure = (\<lambda>k. None),
      generate_content = (\<lambda>m p. Inr (lit ''Hello'')),
      edge_tts_save = (\<lambda>t v. Saved [73, 68, 51]),
      docx_document = (\<lambda>b. Inr [])\<rparr>"
       and inp = "\<lparr>text_input = lit ''Once upon a time'', uploaded_file = None, tone = lit ''Happy'',
      gender = lit ''Male'', prompt_addition = [], button = True\<rparr>"
       and ss = "\<lparr>stored_original = None, stored_rewritten = None, stored_audio = None\<rparr>"
       and fs = Map.empty]
  by (simp add: initial_state_def)

subsection \<open>Audio and download\<close>



text \<open>
  Claim C9. When the speech call of a run fails, the audio bytes of the session are left
  as they were, while the rewritten text is the new one; audio of an earlier generation
  (not empty) is shown again with its download button, after the new rewritten text.
\<close>

theorem failed_speech_keeps_audio:
  assumes "run_script en inp ss fs = (r, s')"
    and "list_ex is_speech_call (page s')"
    and "edge_tts_save en (rewritten_text s') (select_voice (gender inp)) = SaveFailed e left"
  shows "r = Return () \<and> audio_file s' = audio_file (initial_state ss fs)
     \<and> rewritten_text s' \<noteq> []
     \<and> (\<exists>p. generate_content en model_name p = Inr (rewritten_text s'))
     \<and> (audio_file (initial_state ss fs) = Some b \<and> b \<noteq> [] \<longrightarrow>
          (\<exists>pre. page s' = pre @
             [Header ([128214] @ lit '' Original vs. Rewritten Text''), Columns [1, 1],
              Subheader (lit ''Original Text''), Info (original_text s'),
              Subheader (lit ''Rewritten Text''), Success (rewritten_text s'),
              Header ([128266] @ lit '' Listen to Your Audiobook''),
              Audio b (lit ''audio/mp3''),
              DownloadButton ([128229] @ lit '' Download MP3'') b download_filename
                (lit ''audio/mp3'')]))"
proof -
  from assms have app: "app en inp (initial_state ss fs) = (r, s')"
    by (simp add: run_script_def)
  have empty: "page (initial_state ss fs) = []" by (simp add: initial_state_def)
  from app show ?thesis
  proof (cases rule: app_cases)
    case (stopped pre)
    with empty assms(2) show ?thesis by simp
  next
    case (raised pre)
    from raised(3) show ?thesis
    proof (cases rule: handler_cases)
      case (quiet evs)
      with raised empty assms(2) show ?thesis by simp
    next
      case (saved evs c)
      with raised show ?thesis by simp
    next
      case (failed evs e' left' p)
      with raised show ?thesis by simp
    qed
  next
    case (shown pre s1)
    note fin = shown_session [OF shown(4)]
    from shown(3) show ?thesis
    proof (cases rule: handler_cases)
      case (quiet evs)
      with shown(1,2) empty fin assms(2) show ?thesis by simp
    next
      case (saved evs c)
      with fin assms(3) show ?thesis by simp
    next
      case (failed evs e' left' p)
      have "audio_file (initial_state ss fs) = Some b \<and> b \<noteq> [] \<longrightarrow>
          page s' = page s1 @
             [Header ([128214] @ lit '' Original vs. Rewritten Text''), Columns [1, 1],
              Subheader (lit ''Original Text''), Info (original_text s'),
              Subheader (lit ''Rewritten Text''), Success (rewritten_text s'),
              Header ([128266] @ lit '' Listen to Your Audiobook''),
              Audio b (lit ''audio/mp3''),
              DownloadButton ([128229] @ lit '' Download MP3'') b download_filename
                (lit ''audio/mp3'')]"
        using shown(4) failed by (simp add: show_eq)
      with fin failed show ?thesis by auto
    qed
  qed
qed

theorem failed_speech_keeps_audio_witness:
  "list_ex is_speech_call (page (snd (run_script
       \<lparr>environ = [GOOGLE_API_KEY \<mapsto> lit ''key''], dotenv = Map.empty,
      genai_configure = (\<lambda>k. None),
      generate_content = (\<lambda>m p. Inr (lit ''Hello'')),
      edge_tts_save = (\<lambda>t v. SaveFailed (Exn ''NoAudioReceived'' (lit ''no audio'')) None),
      docx_document = (\<lambda>b. Inr [])\<rparr>
       \<lparr>text_input = lit ''Once upon a time'', uploaded_file = None, tone = lit ''Happy'',
      gender = lit ''Male'', prompt_addition = [], button = True\<rparr>
       \<lparr>stored_original = Some (lit ''Before''), stored_rewritten = Some (lit ''Earlier''),
      stored_audio = Some (Some [1, 2, 3])\<rparr>
       Map.empty)))
   \<and> edge_tts_save
       \<lparr>environ = [GOOGLE_API_KEY \<mapsto> lit ''key''], dotenv = Map.empty,
      genai_configure = (\<lambda>k. None),
      generate_content = (\<lambda>m p. Inr (lit ''Hello'')),
      edge_tts_save = (\<lambda>t v. SaveFailed (Exn ''NoAudioReceived'' (lit ''no audio'')) None),
      docx_document = (\<lambda>b. Inr [])\<rparr>
       (rewritten_text (snd (run_script
       \<lparr>environ = [GOOGLE_API_KEY \<mapsto> lit ''key''], dotenv = Map.empty,
      genai_configure = (\<lambda>k. None),
      generate_content = (\<lambda>m p. Inr (lit ''Hello'')),
      edge_tts_save = (\<lambda>t v. SaveFailed (Exn ''NoAudioReceived'' (lit ''no audio'')) None),
      docx_document = (\<lambda>b. Inr [])\<rparr>
       \<lparr>text_input = lit ''Once upon a time'', uploaded_file = None, tone = lit ''Happy'',
      gender = lit ''Male'', prompt_addition = [], button = True\<rparr>
       \<lparr>stored_original = Some (lit ''Before''), stored_rewritten = Some (lit ''Earlier''),
      stored_audio = Some (Some [1, 2, 3])\<rparr>
       Map.empty)))
       (select_voice (lit ''Male''))
     = SaveFailed (Exn ''NoAudioReceived'' (lit ''no audio'')) None
   \<and> audio_file (initial_state
       \<lparr>stored_original = Some (lit ''Before''), stored_rewritten = Some (lit ''Earlier''),
      stored_audio = Some (Some [1, 2, 3])\<rparr>
       Map.empty) = Some [1, 2, 3]
   \<and> fst (run_script
       \<lparr>environ = [GOOGLE_API_KEY \<mapsto> lit ''key''], dotenv = Map.empty,
      genai_configure = (\<lambda>k. None),
      generate_content = (\<lambda>m p. Inr (lit ''Hello'')),
      edge_tts_save = (\<lambda>t v. SaveFailed (Exn ''NoAudioReceived'' (lit ''no audio'')) None),
      docx_document = (\<lambda>b. Inr [])\<rparr>
       \<lparr>text_input = lit ''Once upon a time'', uploaded_file = None, tone = lit ''Happy'',
      gender = lit ''Male'', prompt_addition = [], button = True\<rparr>
       \<lparr>stored_original = Some (lit ''Before''), stored_rewritten = Some (lit ''Earlier''),
      stored_audio = Some (Some [1, 2, 3])\<rparr>
       Map.empty) = Return ()
   \<and> audio_file (snd (run_script
       \<lparr>environ = [GOOGLE_API_KEY \<mapsto> lit ''key''], dotenv = Map.empty,
      genai_configure = (\<lambda>k. None),
      generate_content = (\<lambda>m p. Inr (lit ''Hello'')),
      edge_tts_save = (\<lambda>t v. SaveFailed (Exn ''NoAudioReceived'' (lit ''no audio'')) None),
      docx_document = (\<lambda>b. Inr [])\<rparr>
       \<lparr>text_input = lit ''Once upon a time'', uploaded_file = None, tone = lit ''Happy'',
      gender = lit ''Male'', prompt_addition = [], button = True\<rparr>
       \<lparr>stored_original = Some (lit ''Before''), stored_rewritten = Some (lit ''Earlier''),
      stored_audio = Some (Some [1, 2, 3])\<rparr>
       Map.empty)) = Some [1, 2, 3]
   \<and> rewritten_text (snd (run_script
       \<lparr>environ = [GOOGLE_API_KEY \<mapsto> lit ''key''], dotenv = Map.empty,
      genai_configure = (\<lambda>k. None),
      generate_content = (\<lambda>m p. Inr (lit ''Hello'')),
      edge_tts_save = (\<lambda>t v. SaveFailed (Exn ''NoAudioReceived'' (lit ''no audio'')) None),
      docx_document = (\<lambda>b. Inr [])\<rparr>
       \<lparr>text_input = lit ''Once upon a time'', uploaded_file = None, tone = lit ''Happy'',
      gender = lit ''Male'', prompt_addition = [], button = True\<rparr>
       \<lparr>stored_original = Some (lit ''Before''), stored_rewritten = Some (lit ''Earlier''),
      stored_audio = Some (Some [1, 2, 3])\<rparr>
       Map.empty)) = lit ''Hello''
   \<and> filter is_download (page (snd (run_script
       \<lparr>environ = [GOOGLE_API_KEY \<mapsto> lit ''key''], dotenv = Map.empty,
      genai_configure = (\<lambda>k. None),
      generate_content = (\<lambda>m p. Inr (lit ''Hello'')),
      edge_tts_save = (\<lambda>t v. SaveFailed (Exn ''NoAudioReceived'' (lit ''no audio'')) None),
      docx_document = (\<lambda>b. Inr [])\<rparr>
       \<lparr>text_input = lit ''Once upon a time'', uploaded_file = None, tone = lit ''Happy'',
      gender = lit ''Male'', prompt_addition = [], button = True\<rparr>
       \<lparr>stored_original = Some (lit ''Before''), stored_rewritten = Some (lit ''Earlier''),
      stored_audio = Some (Some [1, 2, 3])\<rparr>
       Map.empty)))
     = [DownloadButton ([128229] @ lit '' Download MP3'') [1, 2, 3] download_filename
          (lit ''audio/mp3'')]"
  using failed_speech_keeps_audio
    [where en = "\<lparr>environ = [GOOGLE_API_KEY \<mapsto> lit ''key''], dotenv = Map.empty,
      genai_configure = (\<lambda>k. None),
      generate_content = (\<lambda>m p. Inr (lit ''Hello'')),
      edge_tts_save = (\<lambda>t v. SaveFailed (Exn ''NoAudioReceived'' (lit ''no audio'')) None),
      docx_document = (\<lambda>b. Inr [])\<rparr>"
       and inp = "\<lparr>text_input = lit ''Once upon a time'', uploaded_file = None, tone = lit ''Happy'',
      gender = lit ''Male'', prompt_addition = [], button = True\<rparr>"
       and ss = "\<lparr>stored_original = Some (lit ''Before''), stored_rewritten = Some (lit ''Earlier''),
      stored_audio = Some (Some [1, 2, 3])\<rparr>"
       and fs = Map.empty
       and e = "Exn ''NoAudioReceived'' (lit ''no audio'')" and left = None
       and b = "[1, 2, 3]"
       and r = "fst (run_script
       \<lparr>environ = [GOOGLE_API_KEY \<mapsto> lit ''key''], dotenv = Map.empty,
      genai_configure = (\<lambda>k. None),
      generate_content = (\<lambda>m p. Inr (lit ''Hello'')),
      edge_tts_save = (\<lambda>t v. SaveFailed (Exn ''NoAudioReceived'' (lit ''no audio'')) None),
      docx_document = (\<lambda>b. Inr [])\<rparr>
       \<lparr>text_input = lit ''Once upon a time'', uploaded_file = None, tone = lit ''Happy'',
      gender = lit ''Male'', prompt_addition = [], button = True\<rparr>
       \<lparr>stored_original = Some (lit ''Before''), stored_rewritten = Some (lit ''Earlier''),
      stored_audio = Some (Some [1, 2, 3])\<rparr>
       Map.empty)"
       and s' = "snd (run_script
       \<lparr>environ = [GOOGLE_API_KEY \<mapsto> lit ''key''], dotenv = Map.empty,
      genai_configure = (\<lambda>k. None),
      generate_content = (\<lambda>m p. Inr (lit ''Hello'')),
      edge_tts_save = (\<lambda>t v. SaveFailed (Exn ''NoAudioReceived'' (lit ''no audio'')) None),
      docx_document = (\<lambda>b. Inr [])\<rparr>
       \<lparr>text_input = lit ''Once upon a time'', uploaded_file = None, tone = lit ''Happy'',
      gender = lit ''Male'', prompt_addition = [], button = True\<rparr>
       \<lparr>stored_original = Some (lit ''Before''), stored_rewritten = Some (lit ''Earlier''),
      stored_audio = Some (Some [1, 2, 3])\<rparr>
       Map.empty)"]
  by (simp add: eval_simps run_simps del: emit_all.simps)

text \<open>
  Claim C10. The voice selection of \<open>generate_audio\<close> is total: \<^verbatim>\<open>"Male"\<close> selects
  \<^verbatim>\<open>en-US-GuyNeural\<close>, every other gender value, \<^verbatim>\<open>"Female"\<close> included, selects
  \<^verbatim>\<open>en-US-JennyNeural\<close>, and \<open>generate_audio\<close> goes on to the speech call with the
  selected voice whatever the gender value is.
\<close>

theorem voice_selection_total:
  "select_voice (lit ''Male'') = lit ''en-US-GuyNeural''
   \<and> select_voice (lit ''Female'') = lit ''en-US-JennyNeural''
   \<and> (gd \<noteq> lit ''Male'' \<longrightarrow> select_voice gd = lit ''en-US-JennyNeural'')
   \<and> (\<exists>p evs. fst (generate_audio en text gd out s) = Return p \<and>
         page (snd (generate_audio en text gd out s))
           = page s @ Speech text (select_voice gd) out # evs)"
  by (auto simp add: select_voice_def voice_map_def lit_def generate_audio_eq
      split: tts_result.splits)

theorem voice_selection_total_witness:
  "lit ''Other'' \<noteq> lit ''Male'' \<and> select_voice (lit ''Other'') = lit ''en-US-JennyNeural''"
  using voice_selection_total [where gd = "lit ''Other''"]
  by (simp add: lit_def)

end
